theory Spec2Isabelle
  imports Complex_Main "HOL-Library.Sublist"
begin

section \<open>JavaScript values\<close>

text \<open>
  The handler is dynamically typed glue: every value it touches (the parsed request body,
  the rows of the store, SDK handles, thrown errors) is a JavaScript value that it tests for
  truthiness, reads a property of, forwards, or hands to \<open>NextResponse.json\<close>.  An
  object is described by the properties a property read finds on it (own or inherited), in
  an association list; \<open>JCyclic\<close> is an object that reaches itself through its
  properties.  A finite number is a rational (both zeros are \<open>JNum 0\<close>); numbers are
  only tested for truthiness and forwarded.
\<close>

datatype js =
    JUndefined
  | JNull
  | JBool bool
  | JNum rat
  | JNaN
  | JBigInt int
  | JStr string
  | JArr "js list"
  | JObj "(string \<times> js) list"
  | JCyclic "(string \<times> js) list"

text \<open>\<open>!v\<close> is \<open>\<not> truthy v\<close>.\<close>

fun truthy :: "js \<Rightarrow> bool" where
  "truthy JUndefined = False"
| "truthy JNull = False"
| "truthy (JBool b) = b"
| "truthy (JNum q) = (q \<noteq> 0)"
| "truthy JNaN = False"
| "truthy (JBigInt i) = (i \<noteq> 0)"
| "truthy (JStr s) = (s \<noteq> [])"
| "truthy (JArr xs) = True"
| "truthy (JObj kvs) = True"
| "truthy (JCyclic kvs) = True"

text \<open>The error a property read of \<open>null\<close> or \<open>undefined\<close> throws (its message depends on
  the engine and is left out).\<close>

definition TypeError :: js where
  "TypeError = JObj [(''name'', JStr ''TypeError'')]"

text \<open>
  \<open>v.k\<close>: throws on \<open>null\<close> and \<open>undefined\<close>, finds nothing on a primitive or an array, and
  looks the name up in an object.  It is used for the names the handler reads (\<open>orgId\<close>,
  \<open>peerId\<close>, \<open>address\<close>, \<open>name\<close>, ...), none of which a built-in prototype defines.
\<close>

fun get_prop :: "js \<Rightarrow> string \<Rightarrow> js + js" where
  "get_prop JUndefined k = Inl TypeError"
| "get_prop JNull k = Inl TypeError"
| "get_prop (JObj kvs) k = Inr (case map_of kvs k of None \<Rightarrow> JUndefined | Some v \<Rightarrow> v)"
| "get_prop (JCyclic kvs) k = Inr (case map_of kvs k of None \<Rightarrow> JUndefined | Some v \<Rightarrow> v)"
| "get_prop v k = Inr JUndefined"

text \<open>
  \<open>JSON.stringify\<close> throws a \<open>TypeError\<close> on a BigInt and on a cyclic object, wherever
  they stand in the value; \<open>serialisable\<close> says that it does not throw.
\<close>

fun serialisable :: "js \<Rightarrow> bool" where
  "serialisable (JBigInt i) = False"
| "serialisable (JCyclic kvs) = False"
| "serialisable (JArr xs) = list_all serialisable xs"
| "serialisable (JObj kvs) = list_all (\<lambda>kv. serialisable (snd kv)) kvs"
| "serialisable v = True"


section \<open>Responses, requests and the outside world\<close>

record response =
  json_body :: js
  status :: nat

text \<open>
  \<open>NextResponse.json(body, {status})\<close> serialises the body with \<open>JSON.stringify\<close> and
  throws what that throws.  The response records the value it was given; the JSON text
  sent has the fields \<open>sent_fields\<close> of it.
\<close>

definition NextResponse_json :: "js \<Rightarrow> nat \<Rightarrow> js + response" where
  "NextResponse_json b s =
     (if serialisable b then Inr \<lparr>json_body = b, status = s\<rparr> else Inl TypeError)"

text \<open>A request is what \<open>await request.json()\<close> does with it: it resolves to the parsed
  value (\<open>Inr\<close>) or rejects with an error (\<open>Inl\<close>) when the body is not valid JSON.\<close>

record request =
  json :: "js + js"

text \<open>
  The calls that leave the handler: the store (\<open>getUser\<close>, \<open>getLatestApiKey\<close>), the SDK
  functions and constructors, the method \<open>client.sendUserOperation\<close> (the receiver first),
  the schema's \<open>safeParse\<close> and the ABI decoder.  Each carries the arguments it is given.
\<close>

datatype call =
    GetUser js
  | GetLatestApiKey js
  | Alchemy js
  | CreateWalletClient js
  | NewWalletClientSigner js js
  | CreateModularAccountV2 js
  | CreateAlchemySmartAccountClient js
  | EncodeFunctionData js
  | SendUserOperation js js
  | SafeParse js
  | DecodeErrorResult js

datatype event = Call call | ConsoleLog js | ConsoleError js

text \<open>
  The outside world of one invocation: \<open>ext\<close> answers each call with the value it returns
  (after \<open>await\<close>, where the handler awaits) or the error it throws; then the environment
  variables the handler reads and the two imported constants (\<open>gensynTestnet\<close> and the
  \<open>abi\<close> of \<open>contract.json\<close>, which are not part of the handler).
\<close>

record env =
  ext :: "call \<Rightarrow> js + js"
  NEXT_PUBLIC_ALCHEMY_API_KEY :: js
  NEXT_PUBLIC_PAYMASTER_POLICY_ID :: js
  SMART_CONTRACT_ADDRESS :: js
  gensynTestnet :: js
  contract_abi :: js

text \<open>A computation yields the events it performed, in order, and either the value it
  ends with or the error it throws.\<close>

type_synonym 'a comp = "event list \<times> (js + 'a)"

definition ret :: "'a \<Rightarrow> 'a comp" where
  "ret x = ([], Inr x)"

definition lift :: "js + 'a \<Rightarrow> 'a comp" where
  "lift r = ([], r)"

definition bnd :: "'a comp \<Rightarrow> ('a \<Rightarrow> 'b comp) \<Rightarrow> 'b comp" where
  "bnd m f =
     (case snd m of
        Inl err \<Rightarrow> (fst m, Inl err)
      | Inr x \<Rightarrow> (fst m @ fst (f x), snd (f x)))"

definition try_catch :: "'a comp \<Rightarrow> (js \<Rightarrow> 'a comp) \<Rightarrow> 'a comp" where
  "try_catch m h =
     (case snd m of
        Inl err \<Rightarrow> (fst m @ fst (h err), snd (h err))
      | Inr x \<Rightarrow> (fst m, Inr x))"

definition call_ext :: "env \<Rightarrow> call \<Rightarrow> js comp" where
  "call_ext e c = ([Call c], ext e c)"

definition console_log :: "js \<Rightarrow> unit comp" where
  "console_log v = ([ConsoleLog v], Inr ())"

definition console_error :: "js \<Rightarrow> unit comp" where
  "console_error v = ([ConsoleError v], Inr ())"

section \<open>The handler \<open>POST\<close>\<close>

text \<open>The variable \<open>body\<close> holds the parsed JSON value, or the response object that the
  \<open>.catch\<close> callback returned.\<close>

datatype body = Parsed js | Caught response

text \<open>A property read of \<open>body\<close>; a response object has neither \<open>orgId\<close> nor \<open>peerId\<close>.\<close>

fun body_prop :: "body \<Rightarrow> string \<Rightarrow> js + js" where
  "body_prop (Parsed v) k = get_prop v k"
| "body_prop (Caught r) k = Inr JUndefined"

definition parse_body :: "request \<Rightarrow> body comp" where
  "parse_body request =
     (case json request of
        Inr v \<Rightarrow> ret (Parsed v)
      | Inl err \<Rightarrow>
          bnd (console_error err) (\<lambda>_.
          bnd (lift (NextResponse_json (JObj [(''error'', JStr ''bad request'')]) 400))
            (\<lambda>r.
          ret (Caught r))))"

text \<open>The \<open>try\<close> block, up to its \<open>return\<close> of the hash.\<close>

definition try_block :: "env \<Rightarrow> body \<Rightarrow> response comp" where
  "try_block e body =
     bnd (lift (body_prop body ''orgId'')) (\<lambda>orgId.
     bnd (call_ext e (GetUser orgId)) (\<lambda>user.
     if \<not> truthy user then
       lift (NextResponse_json (JObj [(''error'', JStr ''user not found'')]) 404)
     else
     bnd (lift (body_prop body ''orgId'')) (\<lambda>orgId.
     bnd (call_ext e (GetLatestApiKey orgId)) (\<lambda>apiKey.
     bnd (if \<not> truthy apiKey then ret True
          else bnd (lift (get_prop apiKey ''deferredActionDigest'')) (\<lambda>d. ret (\<not> truthy d)))
       (\<lambda>missing.
     if missing then
       lift (NextResponse_json (JObj [(''error'', JStr ''api key not found'')]) 500)
     else
     bnd (call_ext e (Alchemy (JObj [(''apiKey'', NEXT_PUBLIC_ALCHEMY_API_KEY e)])))
       (\<lambda>transport.
     bnd (lift (get_prop user ''address'')) (\<lambda>address.
     bnd (call_ext e (CreateWalletClient (JObj
            [(''account'', address), (''chain'', gensynTestnet e),
             (''transport'', transport)])))
       (\<lambda>walletClient.
     bnd (call_ext e (NewWalletClientSigner walletClient (JStr ''wallet''))) (\<lambda>signer.
     bnd (lift (get_prop apiKey ''deferredActionDigest'')) (\<lambda>digest.
     bnd (call_ext e (CreateModularAccountV2 (JObj
            [(''transport'', transport), (''chain'', gensynTestnet e),
             (''signer'', signer), (''deferredAction'', digest)])))
       (\<lambda>account.
     bnd (call_ext e (CreateAlchemySmartAccountClient (JObj
            [(''account'', account), (''chain'', gensynTestnet e),
             (''transport'', transport),
             (''policyId'', NEXT_PUBLIC_PAYMASTER_POLICY_ID e)])))
       (\<lambda>client.
     bnd (console_log (SMART_CONTRACT_ADDRESS e)) (\<lambda>_.
     bnd (lift (body_prop body ''peerId'')) (\<lambda>peerId.
     bnd (call_ext e (EncodeFunctionData (JObj
            [(''abi'', contract_abi e), (''functionName'', JStr ''registerPeer''),
             (''args'', JArr [peerId])])))
       (\<lambda>data.
     bnd (call_ext e (SendUserOperation client (JObj
            [(''uo'', JObj [(''target'', SMART_CONTRACT_ADDRESS e), (''data'', data)])])))
       (\<lambda>result.
     bnd (lift (get_prop result ''hash'')) (\<lambda>hash.
     lift (NextResponse_json (JObj [(''hash'', hash)]) 200))))))))))))))))))"

text \<open>The \<open>catch\<close> block; nothing encloses it, so what it throws leaves the handler.\<close>

definition catch_block :: "env \<Rightarrow> js \<Rightarrow> response comp" where
  "catch_block e err =
     bnd (console_error err) (\<lambda>_.
     bnd (lift (get_prop err ''name'')) (\<lambda>name.
     if name \<noteq> JStr ''HttpRequestError'' then
       lift (NextResponse_json (JObj
         [(''error'', JStr ''An unexpected error occurred''), (''original'', err)]) 500)
     else
     bnd (lift (get_prop err ''details'')) (\<lambda>details.
     bnd (call_ext e (SafeParse details)) (\<lambda>parsedDetailsResult.
     bnd (lift (get_prop parsedDetailsResult ''success'')) (\<lambda>success.
     if \<not> truthy success then
       bnd (lift (get_prop parsedDetailsResult ''error'')) (\<lambda>parseError.
       bnd (lift (get_prop err ''details'')) (\<lambda>original.
       lift (NextResponse_json (JObj
         [(''error'', JStr ''An unexpected error occurred getting request details''),
          (''parseError'', parseError), (''original'', original)]) 500)))
     else
     bnd (lift (get_prop parsedDetailsResult ''data'')) (\<lambda>data.
     bnd (lift (get_prop data ''data'')) (\<lambda>inner.
     bnd (lift (get_prop inner ''revertData'')) (\<lambda>revertData.
     bnd (call_ext e (DecodeErrorResult (JObj
            [(''data'', revertData), (''abi'', contract_abi e)])))
       (\<lambda>decodedError.
     bnd (lift (get_prop decodedError ''errorName'')) (\<lambda>errorName.
     bnd (lift (get_prop err ''metaMessages'')) (\<lambda>metaMessages.
     lift (NextResponse_json (JObj
       [(''error'', errorName), (''metaMessages'', metaMessages)]) 400))))))))))))"

definition POST :: "env \<Rightarrow> request \<Rightarrow> response comp" where
  "POST e request =
     bnd (parse_body request) (\<lambda>body.
     bnd (lift (body_prop body ''orgId'')) (\<lambda>orgId.
     if \<not> truthy orgId then
       lift (NextResponse_json (JObj [(''error'', JStr ''bad request'')]) 400)
     else
     bnd (lift (body_prop body ''orgId'')) (\<lambda>orgId.
     bnd (console_log orgId) (\<lambda>_.
     try_catch (try_block e body) (catch_block e)))))"

section \<open>\<open>createSignerForUser\<close>\<close>

text \<open>
  \<open>createSignerForUser\<close> only builds values, with three functions of the SDKs.  An
  \<open>async\<close> callback is a function to \<open>Inl\<close> (the promise rejects) or \<open>Inr\<close> (it
  resolves).
\<close>

text \<open>\<open>new Error(msg)\<close>.\<close>

definition new_Error :: "string \<Rightarrow> js" where
  "new_Error msg = JObj [(''name'', JStr ''Error''), (''message'', JStr msg)]"

text \<open>The object literal handed to \<open>toAccount\<close>.\<close>

record account_source =
  address :: js
  signMessage :: "js \<Rightarrow> js + js"
  signTransaction :: "js \<Rightarrow> js + js"
  signTypedData :: "js \<Rightarrow> js + js"

text \<open>
  viem's \<open>toAccount\<close> checks the address of a custom source with
  \<open>isAddress(address, {strict: false})\<close>, that is against the pattern
  \<open>^0x[a-fA-F0-9]{40}$\<close> and without the checksum, throws an \<open>InvalidAddressError\<close>
  when it fails, and otherwise returns a local account with the address and the callbacks
  of the source.  Whatever is not a string fails the check here (the model does not tell
  apart the errors thrown for values that are not strings).
\<close>

definition is_hex_digit :: "char \<Rightarrow> bool" where
  "is_hex_digit c = (c \<in> set ''0123456789abcdefABCDEF'')"

fun isAddress :: "js \<Rightarrow> bool" where
  "isAddress (JStr s) =
     (take 2 s = ''0x'' \<and> length s = 42 \<and> list_all is_hex_digit (drop 2 s))"
| "isAddress v = False"

definition InvalidAddressError :: js where
  "InvalidAddressError = JObj [(''name'', JStr ''InvalidAddressError'')]"

record local_account =
  account_address :: js
  account_signMessage :: "js \<Rightarrow> js + js"
  account_signTransaction :: "js \<Rightarrow> js + js"
  account_signTypedData :: "js \<Rightarrow> js + js"
  account_source :: string
  account_type :: string

definition toAccount :: "account_source \<Rightarrow> js + local_account" where
  "toAccount src =
     (if \<not> isAddress (address src) then Inl InvalidAddressError
      else Inr \<lparr>account_address = address src,
                account_signMessage = signMessage src,
                account_signTransaction = signTransaction src,
                account_signTypedData = signTypedData src,
                account_source = ''custom'', account_type = ''local''\<rparr>)"

text \<open>\<open>createWalletClient\<close> and \<open>new WalletClientSigner\<close> keep what they are given: the
  client its account, chain and transport, the signer the client (its \<open>inner\<close>) and the
  signer type.\<close>

record wallet_client_config =
  cfg_account :: local_account
  cfg_chain :: js
  cfg_transport :: js

datatype wallet_client = createWalletClient (config: wallet_client_config)

datatype signer = WalletClientSigner (inner: wallet_client) (signerType: string)

definition createSignerForUser :: "env \<Rightarrow> js \<Rightarrow> js \<Rightarrow> js + signer" where
  "createSignerForUser e user transport =
     (case get_prop user ''address'' of
        Inl err \<Rightarrow> Inl err
      | Inr user_address \<Rightarrow>
          (case toAccount
                 \<lparr>address = user_address,
                  signMessage = (\<lambda>_. Inl (new_Error ''Not implemented'')),
                  signTransaction = (\<lambda>_. Inl (new_Error ''Not implemented'')),
                  signTypedData = (\<lambda>_. Inl (new_Error ''Not implemented''))\<rparr> of
             Inl err \<Rightarrow> Inl err
           | Inr signerAccount \<Rightarrow>
               (let walletClient = createWalletClient
                      \<lparr>cfg_account = signerAccount, cfg_chain = gensynTestnet e,
                       cfg_transport = transport\<rparr>
                in Inr (WalletClientSigner walletClient ''custom''))))"

text \<open>The account a signer signs with: the account of its wallet client.\<close>

definition signer_account :: "signer \<Rightarrow> local_account" where
  "signer_account s = cfg_account (config (inner s))"

text \<open>An address string: \<open>0x\<close> and forty hexadecimal digits.\<close>

definition valid_address :: string where
  "valid_address = ''0x52908400098527886E0F7030069857D2E4169EE7''"

section \<open>Vocabulary of the specification\<close>





text \<open>The steps of the specification's linear sequence, and the step an event belongs to
  (the store lookups, the signer wrapper, the call-data encoding and the logging are not
  steps of that sequence).\<close>

datatype step =
    CreateTransport
  | CreateWalletClientStep
  | CreateModularAccount
  | CreateSmartAccountClient
  | SendUserOperationStep
  | DecodeErrors

fun step_of :: "event \<Rightarrow> step option" where
  "step_of (Call (Alchemy a)) = Some CreateTransport"
| "step_of (Call (CreateWalletClient a)) = Some CreateWalletClientStep"
| "step_of (Call (CreateModularAccountV2 a)) = Some CreateModularAccount"
| "step_of (Call (CreateAlchemySmartAccountClient a)) = Some CreateSmartAccountClient"
| "step_of (Call (SendUserOperation c a)) = Some SendUserOperationStep"
| "step_of (Call (SafeParse d)) = Some DecodeErrors"
| "step_of (Call (DecodeErrorResult a)) = Some DecodeErrors"
| "step_of ev = None"

definition steps :: "event list \<Rightarrow> step list" where
  "steps t = List.map_filter step_of t"

definition sdk_order :: "step list" where
  "sdk_order =
     [CreateTransport, CreateWalletClientStep, CreateModularAccount,
      CreateSmartAccountClient, SendUserOperationStep]"

text \<open>The calls of the revert-reason extraction path.\<close>

fun is_decode :: "call \<Rightarrow> bool" where
  "is_decode (SafeParse d) = True"
| "is_decode (DecodeErrorResult a) = True"
| "is_decode c = False"

section \<open>Concrete worlds\<close>

text \<open>A world in which every call succeeds: a stored user and API key, and a submitted
  user operation.\<close>

fun ok_ext :: "call \<Rightarrow> js + js" where
  "ok_ext (GetUser v) = Inr (JObj [(''address'', JStr ''0xabc'')])"
| "ok_ext (GetLatestApiKey v) = Inr (JObj [(''deferredActionDigest'', JStr ''0xdd'')])"
| "ok_ext (Alchemy v) = Inr (JStr ''transport'')"
| "ok_ext (CreateWalletClient v) = Inr (JStr ''walletClient'')"
| "ok_ext (NewWalletClientSigner w t) = Inr (JStr ''signer'')"
| "ok_ext (CreateModularAccountV2 v) = Inr (JStr ''account'')"
| "ok_ext (CreateAlchemySmartAccountClient v) = Inr (JStr ''client'')"
| "ok_ext (EncodeFunctionData v) = Inr (JStr ''0xda7a'')"
| "ok_ext (SendUserOperation c v) = Inr (JObj [(''hash'', JStr ''0x11'')])"
| "ok_ext (SafeParse v) = Inr (JObj [(''success'', JBool False)])"
| "ok_ext (DecodeErrorResult v) = Inr (JObj [(''errorName'', JStr ''Error'')])"

definition world :: "(call \<Rightarrow> js + js) \<Rightarrow> env" where
  "world x =
     \<lparr>ext = x, NEXT_PUBLIC_ALCHEMY_API_KEY = JStr ''key'',
      NEXT_PUBLIC_PAYMASTER_POLICY_ID = JStr ''policy'',
      SMART_CONTRACT_ADDRESS = JStr ''0xcc'', gensynTestnet = JStr ''gensyn'',
      contract_abi = JArr []\<rparr>"

definition good_request :: request where
  "good_request = \<lparr>json = Inr (JObj [(''orgId'', JStr ''org''), (''peerId'', JStr ''peer'')])\<rparr>"

text \<open>The store knows no user.\<close>

fun no_user_ext :: "call \<Rightarrow> js + js" where
  "no_user_ext (GetUser v) = Inr JUndefined"
| "no_user_ext c = ok_ext c"



text \<open>The submission throws an \<open>HttpRequestError\<close>; its details parse, and the revert data
  decodes to an error of the ABI.\<close>

definition http_error :: js where
  "http_error =
     JObj [(''name'', JStr ''HttpRequestError''), (''details'', JStr ''{...}''),
           (''metaMessages'', JArr [JStr ''Status: 400''])]"

definition parsed_details :: js where
  "parsed_details =
     JObj [(''success'', JBool True),
           (''data'', JObj [(''data'', JObj [(''revertData'', JStr ''0x08c379a0'')])])]"

fun revert_ext :: "call \<Rightarrow> js + js" where
  "revert_ext (SendUserOperation c v) = Inl http_error"
| "revert_ext (SafeParse v) = Inr parsed_details"
| "revert_ext (DecodeErrorResult v) = Inr (JObj [(''errorName'', JStr ''PeerIdAlreadyRegistered'')])"
| "revert_ext c = ok_ext c"

text \<open>The same, but the details do not match the schema.\<close>

fun unparsable_ext :: "call \<Rightarrow> js + js" where
  "unparsable_ext (SendUserOperation c v) = Inl http_error"
| "unparsable_ext (SafeParse v) =
     Inr (JObj [(''success'', JBool False), (''error'', JStr ''ZodError'')])"
| "unparsable_ext c = ok_ext c"

text \<open>The same as \<open>revert_ext\<close>, but the revert data matches no error of the ABI and the
  decoder throws.\<close>

definition decode_failure :: js where
  "decode_failure = JObj [(''name'', JStr ''AbiErrorSignatureNotFoundError'')]"

fun undecodable_ext :: "call \<Rightarrow> js + js" where
  "undecodable_ext (SendUserOperation c v) = Inl http_error"
| "undecodable_ext (SafeParse v) = Inr parsed_details"
| "undecodable_ext (DecodeErrorResult v) = Inl decode_failure"
| "undecodable_ext c = ok_ext c"

text \<open>The submission fails with an \<open>HttpRequestError\<close> whose details parse, the revert
  data is empty, and the decoder throws.\<close>

definition empty_revert_details :: js where
  "empty_revert_details =
     JObj [(''success'', JBool True),
           (''data'', JObj [(''data'', JObj [(''revertData'', JStr ''0x'')])])]"

definition zero_data_failure :: js where
  "zero_data_failure = JObj [(''name'', JStr ''AbiDecodingZeroDataError'')]"

fun zero_data_ext :: "call \<Rightarrow> js + js" where
  "zero_data_ext (SendUserOperation c v) = Inl http_error"
| "zero_data_ext (SafeParse v) = Inr empty_revert_details"
| "zero_data_ext (DecodeErrorResult v) = Inl zero_data_failure"
| "zero_data_ext c = ok_ext c"



text \<open>The 400 response of both bad-request exits, and the events of the successful run
  of \<open>good_request\<close> in the world \<open>ok_ext\<close>.\<close>

definition bad_request :: response where
  "bad_request = \<lparr>json_body = JObj [(''error'', JStr ''bad request'')], status = 400\<rparr>"

definition ok_trace :: "event list" where
  "ok_trace =
     [ConsoleLog (JStr ''org''), Call (GetUser (JStr ''org'')),
      Call (GetLatestApiKey (JStr ''org'')),
      Call (Alchemy (JObj [(''apiKey'', JStr ''key'')])),
      Call (CreateWalletClient (JObj
        [(''account'', JStr ''0xabc''), (''chain'', JStr ''gensyn''),
         (''transport'', JStr ''transport'')])),
      Call (NewWalletClientSigner (JStr ''walletClient'') (JStr ''wallet'')),
      Call (CreateModularAccountV2 (JObj
        [(''transport'', JStr ''transport''), (''chain'', JStr ''gensyn''),
         (''signer'', JStr ''signer''), (''deferredAction'', JStr ''0xdd'')])),
      Call (CreateAlchemySmartAccountClient (JObj
        [(''account'', JStr ''account''), (''chain'', JStr ''gensyn''),
         (''transport'', JStr ''transport''), (''policyId'', JStr ''policy'')])),
      ConsoleLog (JStr ''0xcc''),
      Call (EncodeFunctionData (JObj
        [(''abi'', JArr []), (''functionName'', JStr ''registerPeer''),
         (''args'', JArr [JStr ''peer''])])),
      Call (SendUserOperation (JStr ''client'') (JObj
        [(''uo'', JObj [(''target'', JStr ''0xcc''), (''data'', JStr ''0xda7a'')])]))]"

section \<open>Basic facts\<close>

lemma bnd_pair:
  "bnd (t, r) f =
     (case r of Inl err \<Rightarrow> (t, Inl err) | Inr x \<Rightarrow> (t @ fst (f x), snd (f x)))"
  by (simp add: bnd_def split: sum.splits)

lemma bnd_if: "bnd (if c then m else n) f = (if c then bnd m f else bnd n f)"
  by simp

lemmas comp_simps =
  ret_def lift_def console_log_def console_error_def call_ext_def bnd_pair bnd_if
  NextResponse_json_def

lemma get_prop_Inl [simp]:
  "get_prop v k = Inl x \<longleftrightarrow> (v = JUndefined \<or> v = JNull) \<and> x = TypeError"
  by (cases v) auto

lemma serialisable_literal [simp]:
  "serialisable (JObj [(k, JStr s)])"
  by simp

text \<open>The handler, by the outcome of parsing the body and of the \<open>orgId\<close> check.\<close>

lemma POST_invalid_json:
  "json request = Inl err \<Longrightarrow> POST e request = ([ConsoleError err], Inr bad_request)"
  by (simp add: POST_def parse_body_def comp_simps bad_request_def)

lemma POST_parsed:
  "json request = Inr b \<Longrightarrow>
   POST e request =
     (case get_prop b ''orgId'' of
        Inl x \<Rightarrow> ([], Inl x)
      | Inr v \<Rightarrow>
          if \<not> truthy v then ([], Inr bad_request)
          else (ConsoleLog v # fst (try_catch (try_block e (Parsed b)) (catch_block e)),
                snd (try_catch (try_block e (Parsed b)) (catch_block e))))"
  by (simp add: POST_def parse_body_def comp_simps bad_request_def split: sum.splits)

lemma POST_try:
  "json request = Inr b \<Longrightarrow> get_prop b ''orgId'' = Inr v \<Longrightarrow> truthy v \<Longrightarrow>
   POST e request =
     (ConsoleLog v # fst (try_catch (try_block e (Parsed b)) (catch_block e)),
      snd (try_catch (try_block e (Parsed b)) (catch_block e)))"
  by (simp add: POST_parsed)

lemma POST_caught:
  "json request = Inr b \<Longrightarrow> get_prop b ''orgId'' = Inr v \<Longrightarrow> truthy v \<Longrightarrow>
   snd (try_block e (Parsed b)) = Inl err \<Longrightarrow>
   snd (POST e request) = snd (catch_block e err)"
  by (simp add: POST_try try_catch_def)

lemma snd_Inr: "snd p = Inr r \<Longrightarrow> p = (fst p, Inr r)"
  by (cases p) simp



lemma catch_block_returns:
  "catch_block e err = (t, Inr r) \<Longrightarrow>
   r = \<lparr>json_body = JObj [(''error'', JStr ''An unexpected error occurred''),
         (''original'', err)], status = 500\<rparr> \<or>
   (\<exists>parseError original.
      r = \<lparr>json_body = JObj
            [(''error'', JStr ''An unexpected error occurred getting request details''),
             (''parseError'', parseError), (''original'', original)], status = 500\<rparr>) \<or>
   (\<exists>arg decoded errorName metaMessages.
      ext e (DecodeErrorResult arg) = Inr decoded \<and>
      get_prop decoded ''errorName'' = Inr errorName \<and>
      r = \<lparr>json_body = JObj [(''error'', errorName), (''metaMessages'', metaMessages)],
           status = 400\<rparr>)"
  unfolding catch_block_def
  by (auto simp add: comp_simps split: sum.splits if_splits)



lemma catch_block_not_200:
  assumes "snd (catch_block e err) = Inr r"
  shows "status r \<noteq> 200"
  using catch_block_returns [OF snd_Inr [OF assms(1)]]
  by auto





lemma catch_block_calls:
  "Call c \<in> set (fst (catch_block e err)) \<Longrightarrow> is_decode c"
  unfolding catch_block_def
  by (auto simp add: comp_simps split: sum.splits if_splits)


lemma POST_calls:
  assumes "json request = Inr b" and "Call c \<in> set (fst (POST e request))"
  shows "Call c \<in> set (fst (try_block e (Parsed b))) \<or> is_decode c"
  using assms
  by (auto simp add: POST_parsed try_catch_def split: sum.splits if_splits
      dest: catch_block_calls)

lemma try_block_forwards:
  assumes "get_prop b ''orgId'' = Inr orgId" and "get_prop b ''peerId'' = Inr peerId"
    and "Call c \<in> set (fst (try_block e (Parsed b)))"
  shows "case c of
      GetUser x \<Rightarrow> x = orgId
    | GetLatestApiKey x \<Rightarrow> x = orgId
    | EncodeFunctionData a \<Rightarrow>
        a = JObj [(''abi'', contract_abi e), (''functionName'', JStr ''registerPeer''),
                  (''args'', JArr [peerId])]
    | CreateWalletClient a \<Rightarrow>
        (\<exists>user. ext e (GetUser orgId) = Inr user \<and>
           get_prop a ''account'' = get_prop user ''address'')
    | CreateModularAccountV2 a \<Rightarrow>
        (\<exists>apiKey. ext e (GetLatestApiKey orgId) = Inr apiKey \<and>
           get_prop a ''deferredAction'' = get_prop apiKey ''deferredActionDigest'')
    | _ \<Rightarrow> True"
  using assms unfolding try_block_def
  by (auto simp add: comp_simps split: sum.splits if_splits)

text \<open>The run of the \<open>try\<close> block in which every call returns.\<close>

lemma try_block_success:
  assumes "get_prop b ''orgId'' = Inr orgId" and "get_prop b ''peerId'' = Inr peerId"
    and "ext e (GetUser orgId) = Inr user" and "truthy user"
    and "ext e (GetLatestApiKey orgId) = Inr apiKey" and "truthy apiKey"
    and "get_prop apiKey ''deferredActionDigest'' = Inr digest" and "truthy digest"
    and "ext e (Alchemy (JObj [(''apiKey'', NEXT_PUBLIC_ALCHEMY_API_KEY e)])) = Inr transport"
    and "get_prop user ''address'' = Inr user_address"
    and "ext e (CreateWalletClient (JObj
           [(''account'', user_address), (''chain'', gensynTestnet e),
            (''transport'', transport)])) = Inr walletClient"
    and "ext e (NewWalletClientSigner walletClient (JStr ''wallet'')) = Inr wallet_signer"
    and "ext e (CreateModularAccountV2 (JObj
           [(''transport'', transport), (''chain'', gensynTestnet e),
            (''signer'', wallet_signer), (''deferredAction'', digest)])) = Inr smart_account"
    and "ext e (CreateAlchemySmartAccountClient (JObj
           [(''account'', smart_account), (''chain'', gensynTestnet e),
            (''transport'', transport),
            (''policyId'', NEXT_PUBLIC_PAYMASTER_POLICY_ID e)])) = Inr client"
    and "ext e (EncodeFunctionData (JObj
           [(''abi'', contract_abi e), (''functionName'', JStr ''registerPeer''),
            (''args'', JArr [peerId])])) = Inr data"
    and "ext e (SendUserOperation client (JObj
           [(''uo'', JObj [(''target'', SMART_CONTRACT_ADDRESS e), (''data'', data)])]))
         = Inr result"
    and "get_prop result ''hash'' = Inr hash" and "serialisable hash"
  shows "try_block e (Parsed b) =
     ([Call (GetUser orgId), Call (GetLatestApiKey orgId),
       Call (Alchemy (JObj [(''apiKey'', NEXT_PUBLIC_ALCHEMY_API_KEY e)])),
       Call (CreateWalletClient (JObj
         [(''account'', user_address), (''chain'', gensynTestnet e),
          (''transport'', transport)])),
       Call (NewWalletClientSigner walletClient (JStr ''wallet'')),
       Call (CreateModularAccountV2 (JObj
         [(''transport'', transport), (''chain'', gensynTestnet e),
          (''signer'', wallet_signer), (''deferredAction'', digest)])),
       Call (CreateAlchemySmartAccountClient (JObj
         [(''account'', smart_account), (''chain'', gensynTestnet e),
          (''transport'', transport),
          (''policyId'', NEXT_PUBLIC_PAYMASTER_POLICY_ID e)])),
       ConsoleLog (SMART_CONTRACT_ADDRESS e),
       Call (EncodeFunctionData (JObj
         [(''abi'', contract_abi e), (''functionName'', JStr ''registerPeer''),
          (''args'', JArr [peerId])])),
       Call (SendUserOperation client (JObj
         [(''uo'', JObj [(''target'', SMART_CONTRACT_ADDRESS e), (''data'', data)])]))],
      Inr \<lparr>json_body = JObj [(''hash'', hash)], status = 200\<rparr>)"
  using assms by (simp add: try_block_def comp_simps)

text \<open>The steps of the two blocks.\<close>

lemma steps_Nil [simp]: "steps [] = []"
  by (simp add: steps_def map_filter_simps)

lemma steps_Cons [simp]:
  "steps (ev # t) = (case step_of ev of None \<Rightarrow> steps t | Some s \<Rightarrow> s # steps t)"
  by (simp add: steps_def map_filter_simps split: option.splits)

lemma steps_append [simp]: "steps (t @ u) = steps t @ steps u"
  by (induction t) (simp_all split: option.splits)

lemma prefix_take:
  assumes "prefix xs ys"
  shows "\<exists>n\<le>length ys. xs = take n ys"
proof -
  from assms obtain zs where ys: "ys = xs @ zs"
    by (auto simp add: prefix_def)
  have "length xs \<le> length ys" and "xs = take (length xs) ys"
    unfolding ys by simp_all
  then show ?thesis by blast
qed

lemma try_block_steps:
  "try_block e body = (t, res) \<Longrightarrow>
   prefix (steps t) sdk_order \<and>
   (\<forall>r. res = Inr r \<and> status r = 200 \<longrightarrow> steps t = sdk_order)"
  unfolding try_block_def sdk_order_def
  by (auto simp add: comp_simps split: sum.splits if_splits)

lemma steps_try_block:
  "\<exists>n\<le>length sdk_order. steps (fst (try_block e body)) = take n sdk_order"
  using try_block_steps [OF prod.collapse [symmetric], of e body]
  by (simp add: prefix_take)

lemma steps_try_block_success:
  "snd (try_block e body) = Inr r \<Longrightarrow> status r = 200 \<Longrightarrow>
   steps (fst (try_block e body)) = sdk_order"
  using try_block_steps [OF prod.collapse [symmetric], of e body]
  by simp

lemma catch_block_steps:
  "catch_block e err = (t, res) \<Longrightarrow>
   steps t \<in> {[], [DecodeErrors], [DecodeErrors, DecodeErrors]}"
  unfolding catch_block_def
  by (auto simp add: comp_simps split: sum.splits if_splits)

lemma steps_catch_block:
  "\<exists>k. steps (fst (catch_block e err)) = replicate k DecodeErrors"
proof -
  have "steps (fst (catch_block e err)) \<in> {[], [DecodeErrors], [DecodeErrors, DecodeErrors]}"
    by (rule catch_block_steps [OF prod.collapse [symmetric]])
  then consider "steps (fst (catch_block e err)) = replicate 0 DecodeErrors"
    | "steps (fst (catch_block e err)) = replicate 1 DecodeErrors"
    | "steps (fst (catch_block e err)) = replicate 2 DecodeErrors"
    by (auto simp add: numeral_2_eq_2)
  then show ?thesis by blast
qed

section \<open>Runs in the concrete worlds\<close>

lemma good_request_body:
  "json good_request = Inr (JObj [(''orgId'', JStr ''org''), (''peerId'', JStr ''peer'')])"
  "get_prop (JObj [(''orgId'', JStr ''org''), (''peerId'', JStr ''peer'')]) ''orgId''
     = Inr (JStr ''org'')"
  "get_prop (JObj [(''orgId'', JStr ''org''), (''peerId'', JStr ''peer'')]) ''peerId''
     = Inr (JStr ''peer'')"
  "truthy (JStr ''org'')"
  by (simp_all add: good_request_def)

lemma run_ok:
  "POST (world ok_ext) good_request =
     (ok_trace, Inr \<lparr>json_body = JObj [(''hash'', JStr ''0x11'')], status = 200\<rparr>)"
  by code_simp

lemma run_null:
  "POST (world x) \<lparr>json = Inr JNull\<rparr> = ([], Inl TypeError)"
  by (simp add: POST_def parse_body_def comp_simps)



lemma try_revert:
  "try_block (world revert_ext)
     (Parsed (JObj [(''orgId'', JStr ''org''), (''peerId'', JStr ''peer'')]))
   = (tl ok_trace, Inl http_error)"
  by code_simp

lemma try_undecodable:
  "try_block (world undecodable_ext)
     (Parsed (JObj [(''orgId'', JStr ''org''), (''peerId'', JStr ''peer'')]))
   = (tl ok_trace, Inl http_error)"
  by code_simp

lemma try_unparsable:
  "try_block (world unparsable_ext)
     (Parsed (JObj [(''orgId'', JStr ''org''), (''peerId'', JStr ''peer'')]))
   = (tl ok_trace, Inl http_error)"
  by code_simp

lemma try_zero_data:
  "try_block (world zero_data_ext)
     (Parsed (JObj [(''orgId'', JStr ''org''), (''peerId'', JStr ''peer'')]))
   = (tl ok_trace, Inl http_error)"
  by code_simp


lemma run_undecodable:
  "POST (world undecodable_ext) good_request =
     (ok_trace @ [ConsoleError http_error, Call (SafeParse (JStr ''{...}'')),
        Call (DecodeErrorResult (JObj [(''data'', JStr ''0x08c379a0''), (''abi'', JArr [])]))],
      Inl decode_failure)"
  by code_simp



lemma http_error_props:
  "get_prop http_error ''name'' = Inr (JStr ''HttpRequestError'')"
  "get_prop http_error ''details'' = Inr (JStr ''{...}'')"
  "get_prop http_error ''metaMessages'' = Inr (JArr [JStr ''Status: 400''])"
  by (simp_all add: http_error_def)

lemma parsed_details_props:
  "get_prop parsed_details ''success'' = Inr (JBool True)"
  "get_prop parsed_details ''data'' =
     Inr (JObj [(''data'', JObj [(''revertData'', JStr ''0x08c379a0'')])])"
  by (simp_all add: parsed_details_def)


section \<open>The claims\<close>

subsection \<open>C1: the responses of the handler\<close>




subsection \<open>C2: errors that are not an \<open>HttpRequestError\<close>\<close>




subsection \<open>C3: the revert reason of an \<open>HttpRequestError\<close>\<close>

text \<open>
  Claim C3.  When the \<open>try\<close> block throws an error whose \<open>name\<close> is \<open>HttpRequestError\<close>
  and \<open>safeParse\<close> of its \<open>details\<close> returns a result: if the result is a success carrying
  \<open>data.data.revertData\<close> and \<open>decodeErrorResult\<close> of that revert data and the contract
  ABI returns a decoded error, the handler answers with
  \<open>NextResponse.json({error: errorName, metaMessages}, {status: 400})\<close>, where \<open>errorName\<close>
  is the decoded error's name and \<open>metaMessages\<close> the thrown error's; if
  \<open>decodeErrorResult\<close> throws, the handler rejects with what it threw and returns no
  response; if the result is not a success, the handler answers with
  \<open>NextResponse.json\<close> of \<open>An unexpected error occurred getting request details\<close>, the
  parse error and the details, with status 500.  The SDK hands strings to these bodies,
  which are serialisable, so the answer is the response with that body and status.
\<close>

theorem POST_revert_reason:
  assumes "json request = Inr b" and "get_prop b ''orgId'' = Inr orgId" and "truthy orgId"
    and "snd (try_block e (Parsed b)) = Inl err"
    and "get_prop err ''name'' = Inr (JStr ''HttpRequestError'')"
    and "get_prop err ''details'' = Inr details"
    and "ext e (SafeParse details) = Inr parsed"
    and "get_prop parsed ''success'' = Inr success"
  shows
    "(truthy success \<and> get_prop parsed ''data'' = Inr d \<and> get_prop d ''data'' = Inr payload \<and>
      get_prop payload ''revertData'' = Inr revertData \<and>
      ext e (DecodeErrorResult (JObj [(''data'', revertData), (''abi'', contract_abi e)]))
        = Inr decoded \<and>
      get_prop decoded ''errorName'' = Inr errorName \<and>
      get_prop err ''metaMessages'' = Inr metaMessages \<longrightarrow>
        snd (POST e request) = NextResponse_json (JObj
          [(''error'', errorName), (''metaMessages'', metaMessages)]) 400 \<and>
        (serialisable errorName \<and> serialisable metaMessages \<longrightarrow>
           snd (POST e request) = Inr \<lparr>json_body = JObj
             [(''error'', errorName), (''metaMessages'', metaMessages)], status = 400\<rparr>)) \<and>
     (truthy success \<and> get_prop parsed ''data'' = Inr d \<and> get_prop d ''data'' = Inr payload \<and>
      get_prop payload ''revertData'' = Inr revertData \<and>
      ext e (DecodeErrorResult (JObj [(''data'', revertData), (''abi'', contract_abi e)]))
        = Inl thrown \<longrightarrow>
        snd (POST e request) = Inl thrown) \<and>
     (\<not> truthy success \<and> get_prop parsed ''error'' = Inr parseError \<longrightarrow>
        snd (POST e request) = NextResponse_json (JObj
          [(''error'', JStr ''An unexpected error occurred getting request details''),
           (''parseError'', parseError), (''original'', details)]) 500 \<and>
        (serialisable parseError \<and> serialisable details \<longrightarrow>
           snd (POST e request) = Inr \<lparr>json_body = JObj
             [(''error'', JStr ''An unexpected error occurred getting request details''),
              (''parseError'', parseError), (''original'', details)], status = 500\<rparr>))"
proof -
  have post: "snd (POST e request) = snd (catch_block e err)"
    using assms(1-4) by (rule POST_caught)
  show ?thesis
    unfolding post using assms(5-8)
    by (simp add: catch_block_def ret_def lift_def console_error_def call_ext_def bnd_pair)
      (simp add: NextResponse_json_def)
qed

text \<open>The three cases, in the worlds \<open>revert_ext\<close>, \<open>undecodable_ext\<close> and
  \<open>unparsable_ext\<close>.\<close>

theorem POST_revert_reason_witness:
  "snd (POST (world revert_ext) good_request) = Inr \<lparr>json_body = JObj
     [(''error'', JStr ''PeerIdAlreadyRegistered''),
      (''metaMessages'', JArr [JStr ''Status: 400''])], status = 400\<rparr> \<and>
   snd (POST (world undecodable_ext) good_request) = Inl decode_failure \<and>
   snd (POST (world unparsable_ext) good_request) = Inr \<lparr>json_body = JObj
     [(''error'', JStr ''An unexpected error occurred getting request details''),
      (''parseError'', JStr ''ZodError''), (''original'', JStr ''{...}'')], status = 500\<rparr>"
proof -
  let ?b = "JObj [(''orgId'', JStr ''org''), (''peerId'', JStr ''peer'')]"
  let ?rd = "JObj [(''revertData'', JStr ''0x08c379a0'')]"
  note b = good_request_body(1,2,4)
  note err = http_error_props
  have t1: "snd (try_block (world revert_ext) (Parsed ?b)) = Inl http_error"
    by (simp add: try_revert)
  have t2: "snd (try_block (world undecodable_ext) (Parsed ?b)) = Inl http_error"
    by (simp add: try_undecodable)
  have t3: "snd (try_block (world unparsable_ext) (Parsed ?b)) = Inl http_error"
    by (simp add: try_unparsable)
  have 1: "snd (POST (world revert_ext) good_request) = Inr \<lparr>json_body = JObj
     [(''error'', JStr ''PeerIdAlreadyRegistered''),
      (''metaMessages'', JArr [JStr ''Status: 400''])], status = 400\<rparr>"
    using POST_revert_reason [OF b t1 err(1,2), of parsed_details "JBool True"
        "JObj [(''data'', ?rd)]" ?rd "JStr ''0x08c379a0''"
        "JObj [(''errorName'', JStr ''PeerIdAlreadyRegistered'')]"
        "JStr ''PeerIdAlreadyRegistered''" "JArr [JStr ''Status: 400'']"]
      parsed_details_props err(3)
    by (simp add: world_def NextResponse_json_def)
  have 2: "snd (POST (world undecodable_ext) good_request) = Inl decode_failure"
    using POST_revert_reason [OF b t2 err(1,2), of parsed_details "JBool True"
        "JObj [(''data'', ?rd)]" ?rd "JStr ''0x08c379a0''" _ _ _ decode_failure]
      parsed_details_props
    by (simp add: world_def NextResponse_json_def)
  have 3: "snd (POST (world unparsable_ext) good_request) = Inr \<lparr>json_body = JObj
     [(''error'', JStr ''An unexpected error occurred getting request details''),
      (''parseError'', JStr ''ZodError''), (''original'', JStr ''{...}'')], status = 500\<rparr>"
    using POST_revert_reason [OF b t3 err(1,2),
        of "JObj [(''success'', JBool False), (''error'', JStr ''ZodError'')]" "JBool False"
        _ _ _ _ _ _ _ "JStr ''ZodError''"]
    by (simp add: world_def NextResponse_json_def)
  from 1 2 3 show ?thesis by simp
qed

text \<open>The claim as stated fails: the error is an \<open>HttpRequestError\<close> and its details match
  the schema, but the decoder throws and the handler returns no response.\<close>

theorem POST_undecodable_counterexample:
  "get_prop http_error ''name'' = Inr (JStr ''HttpRequestError'') \<and>
   ext (world undecodable_ext) (SafeParse (JStr ''{...}'')) = Inr parsed_details \<and>
   POST (world undecodable_ext) good_request =
     (ok_trace @ [ConsoleError http_error, Call (SafeParse (JStr ''{...}'')),
        Call (DecodeErrorResult (JObj [(''data'', JStr ''0x08c379a0''), (''abi'', JArr [])]))],
      Inl decode_failure)"
proof (intro conjI)
  show "get_prop http_error ''name'' = Inr (JStr ''HttpRequestError'')"
    by (rule http_error_props)
  show "ext (world undecodable_ext) (SafeParse (JStr ''{...}'')) = Inr parsed_details"
    by (simp add: world_def)
qed (rule run_undecodable)

subsection \<open>C4: no stored user\<close>

text \<open>
  Claim C4.  When \<open>getUser\<close>, called with the request's \<open>orgId\<close>, returns a falsy value, the
  handler returns status 404 with body \<open>{error: "user not found"}\<close>, and the only call it
  has made is \<open>getUser\<close>: no key-material lookup, no smart-account construction and no
  submission of a user operation.
\<close>

theorem POST_user_not_found:
  "json request = Inr b \<Longrightarrow> get_prop b ''orgId'' = Inr orgId \<Longrightarrow> truthy orgId \<Longrightarrow>
   ext e (GetUser orgId) = Inr user \<Longrightarrow> \<not> truthy user \<Longrightarrow>
   POST e request =
     ([ConsoleLog orgId, Call (GetUser orgId)],
      Inr \<lparr>json_body = JObj [(''error'', JStr ''user not found'')], status = 404\<rparr>)"
  by (simp add: POST_try try_block_def try_catch_def comp_simps)

theorem POST_user_not_found_witness:
  "POST (world no_user_ext) good_request =
     ([ConsoleLog (JStr ''org''), Call (GetUser (JStr ''org''))],
      Inr \<lparr>json_body = JObj [(''error'', JStr ''user not found'')], status = 404\<rparr>)"
  using POST_user_not_found [of good_request
      "JObj [(''orgId'', JStr ''org''), (''peerId'', JStr ''peer'')]"
      "JStr ''org''" "world no_user_ext" JUndefined]
  by (simp add: good_request_def world_def)

subsection \<open>C5: a missing \<open>orgId\<close>\<close>

text \<open>
  Claim C5.  A request body whose \<open>orgId\<close> is absent, empty or otherwise falsy is to be
  answered with status 400 and body \<open>{error: "bad request"}\<close> before any store lookup or
  SDK call.  The handler does so whenever reading \<open>orgId\<close> of the body yields a falsy
  value.  For the JSON body \<open>null\<close>, which has no \<open>orgId\<close>, the read itself throws:
  \<open>!body.orgId\<close> stands outside the \<open>try\<close>, so the handler throws a \<open>TypeError\<close> and
  returns no response, where every other body without a truthy \<open>orgId\<close> gets the 400.
\<close>

theorem POST_null_body_throws:
  "POST (world ok_ext) \<lparr>json = Inr JNull\<rparr> = ([], Inl TypeError)"
  by (rule run_null)

text \<open>The bodies on which the handler does answer 400: those of which \<open>orgId\<close> reads as a
  falsy value, the response object left by the JSON \<open>catch\<close> among them.\<close>

lemma POST_falsy_orgId:
  "snd (parse_body request) = Inr body \<Longrightarrow> body_prop body ''orgId'' = Inr v \<Longrightarrow>
   \<not> truthy v \<Longrightarrow>
   snd (POST e request) =
     Inr \<lparr>json_body = JObj [(''error'', JStr ''bad request'')], status = 400\<rparr> \<and>
   (\<forall>c. Call c \<notin> set (fst (POST e request)))"
  by (auto simp add: POST_def parse_body_def comp_simps split: sum.splits)

lemma POST_falsy_orgId_example:
  "snd (POST (world ok_ext)
      \<lparr>json = Inr (JObj [(''orgId'', JStr ''''), (''peerId'', JStr ''peer'')])\<rparr>) =
     Inr \<lparr>json_body = JObj [(''error'', JStr ''bad request'')], status = 400\<rparr> \<and>
   (\<forall>c. Call c \<notin> set (fst (POST (world ok_ext)
      \<lparr>json = Inr (JObj [(''orgId'', JStr ''''), (''peerId'', JStr ''peer'')])\<rparr>)))"
  using POST_falsy_orgId
    [of "\<lparr>json = Inr (JObj [(''orgId'', JStr ''''), (''peerId'', JStr ''peer'')])\<rparr>"
      "Parsed (JObj [(''orgId'', JStr ''''), (''peerId'', JStr ''peer'')])" "JStr ''''"
      "world ok_ext"]
  by (simp add: parse_body_def ret_def)

subsection \<open>C6: identifiers are forwarded unchanged\<close>

text \<open>
  Claim C6.  In every run of the handler, \<open>getUser\<close> and \<open>getLatestApiKey\<close> are called with
  the request's \<open>orgId\<close> itself, the call data is encoded for \<open>registerPeer\<close> with the
  request's \<open>peerId\<close> as its single argument, the wallet client is created with the
  \<open>address\<close> of the user that \<open>getUser\<close> returned as its account, and the modular account
  with the \<open>deferredActionDigest\<close> of the API key that \<open>getLatestApiKey\<close> returned as its
  deferred action.  And when every call returns, the handler makes exactly these calls,
  in this order and with these arguments: \<open>getUser(orgId)\<close>, \<open>getLatestApiKey(orgId)\<close>,
  \<open>alchemy\<close>, \<open>createWalletClient\<close> with \<open>account: user.address\<close>, the signer wrapper,
  \<open>createModularAccountV2\<close> with \<open>deferredAction: apiKey.deferredActionDigest\<close>,
  \<open>createAlchemySmartAccountClient\<close>, \<open>encodeFunctionData\<close> with \<open>args: [peerId]\<close> and
  \<open>sendUserOperation\<close>, and returns the hash with status 200.
\<close>

theorem POST_forwards_identifiers:
  assumes "json request = Inr b" and "get_prop b ''orgId'' = Inr orgId"
    and "get_prop b ''peerId'' = Inr peerId"
  shows
    "(Call (GetUser x) \<in> set (fst (POST e request)) \<longrightarrow> x = orgId) \<and>
     (Call (GetLatestApiKey y) \<in> set (fst (POST e request)) \<longrightarrow> y = orgId) \<and>
     (Call (EncodeFunctionData a) \<in> set (fst (POST e request)) \<longrightarrow>
        a = JObj [(''abi'', contract_abi e), (''functionName'', JStr ''registerPeer''),
                  (''args'', JArr [peerId])]) \<and>
     (Call (CreateWalletClient w) \<in> set (fst (POST e request)) \<longrightarrow>
        (\<exists>user. ext e (GetUser orgId) = Inr user \<and>
           get_prop w ''account'' = get_prop user ''address'')) \<and>
     (Call (CreateModularAccountV2 m) \<in> set (fst (POST e request)) \<longrightarrow>
        (\<exists>apiKey. ext e (GetLatestApiKey orgId) = Inr apiKey \<and>
           get_prop m ''deferredAction'' = get_prop apiKey ''deferredActionDigest'')) \<and>
     (truthy orgId \<and>
      ext e (GetUser orgId) = Inr user \<and> truthy user \<and>
      ext e (GetLatestApiKey orgId) = Inr apiKey \<and> truthy apiKey \<and>
      get_prop apiKey ''deferredActionDigest'' = Inr digest \<and> truthy digest \<and>
      ext e (Alchemy (JObj [(''apiKey'', NEXT_PUBLIC_ALCHEMY_API_KEY e)])) = Inr transport \<and>
      get_prop user ''address'' = Inr user_address \<and>
      ext e (CreateWalletClient (JObj
        [(''account'', user_address), (''chain'', gensynTestnet e),
         (''transport'', transport)])) = Inr walletClient \<and>
      ext e (NewWalletClientSigner walletClient (JStr ''wallet'')) = Inr wallet_signer \<and>
      ext e (CreateModularAccountV2 (JObj
        [(''transport'', transport), (''chain'', gensynTestnet e),
         (''signer'', wallet_signer), (''deferredAction'', digest)])) = Inr smart_account \<and>
      ext e (CreateAlchemySmartAccountClient (JObj
        [(''account'', smart_account), (''chain'', gensynTestnet e),
         (''transport'', transport),
         (''policyId'', NEXT_PUBLIC_PAYMASTER_POLICY_ID e)])) = Inr client \<and>
      ext e (EncodeFunctionData (JObj
        [(''abi'', contract_abi e), (''functionName'', JStr ''registerPeer''),
         (''args'', JArr [peerId])])) = Inr data \<and>
      ext e (SendUserOperation client (JObj
        [(''uo'', JObj [(''target'', SMART_CONTRACT_ADDRESS e), (''data'', data)])]))
        = Inr result \<and>
      get_prop result ''hash'' = Inr hash \<and> serialisable hash \<longrightarrow>
        POST e request =
          ([ConsoleLog orgId, Call (GetUser orgId), Call (GetLatestApiKey orgId),
            Call (Alchemy (JObj [(''apiKey'', NEXT_PUBLIC_ALCHEMY_API_KEY e)])),
            Call (CreateWalletClient (JObj
              [(''account'', user_address), (''chain'', gensynTestnet e),
               (''transport'', transport)])),
            Call (NewWalletClientSigner walletClient (JStr ''wallet'')),
            Call (CreateModularAccountV2 (JObj
              [(''transport'', transport), (''chain'', gensynTestnet e),
               (''signer'', wallet_signer), (''deferredAction'', digest)])),
            Call (CreateAlchemySmartAccountClient (JObj
              [(''account'', smart_account), (''chain'', gensynTestnet e),
               (''transport'', transport),
               (''policyId'', NEXT_PUBLIC_PAYMASTER_POLICY_ID e)])),
            ConsoleLog (SMART_CONTRACT_ADDRESS e),
            Call (EncodeFunctionData (JObj
              [(''abi'', contract_abi e), (''functionName'', JStr ''registerPeer''),
               (''args'', JArr [peerId])])),
            Call (SendUserOperation client (JObj
              [(''uo'', JObj [(''target'', SMART_CONTRACT_ADDRESS e), (''data'', data)])]))],
           Inr \<lparr>json_body = JObj [(''hash'', hash)], status = 200\<rparr>))"
proof (intro conjI impI)
  assume "Call (GetUser x) \<in> set (fst (POST e request))"
  then show "x = orgId"
    using POST_calls [OF assms(1)] try_block_forwards [OF assms(2,3)] by fastforce
next
  assume "Call (GetLatestApiKey y) \<in> set (fst (POST e request))"
  then show "y = orgId"
    using POST_calls [OF assms(1)] try_block_forwards [OF assms(2,3)] by fastforce
next
  assume "Call (EncodeFunctionData a) \<in> set (fst (POST e request))"
  then show "a = JObj [(''abi'', contract_abi e), (''functionName'', JStr ''registerPeer''),
                  (''args'', JArr [peerId])]"
    using POST_calls [OF assms(1)] try_block_forwards [OF assms(2,3)] by fastforce
next
  assume "Call (CreateWalletClient w) \<in> set (fst (POST e request))"
  then show "\<exists>user. ext e (GetUser orgId) = Inr user \<and>
           get_prop w ''account'' = get_prop user ''address''"
    using POST_calls [OF assms(1)] try_block_forwards [OF assms(2,3)] by fastforce
next
  assume "Call (CreateModularAccountV2 m) \<in> set (fst (POST e request))"
  then show "\<exists>apiKey. ext e (GetLatestApiKey orgId) = Inr apiKey \<and>
           get_prop m ''deferredAction'' = get_prop apiKey ''deferredActionDigest''"
    using POST_calls [OF assms(1)] try_block_forwards [OF assms(2,3)] by fastforce
next
  assume a: "truthy orgId \<and>
      ext e (GetUser orgId) = Inr user \<and> truthy user \<and>
      ext e (GetLatestApiKey orgId) = Inr apiKey \<and> truthy apiKey \<and>
      get_prop apiKey ''deferredActionDigest'' = Inr digest \<and> truthy digest \<and>
      ext e (Alchemy (JObj [(''apiKey'', NEXT_PUBLIC_ALCHEMY_API_KEY e)])) = Inr transport \<and>
      get_prop user ''address'' = Inr user_address \<and>
      ext e (CreateWalletClient (JObj
        [(''account'', user_address), (''chain'', gensynTestnet e),
         (''transport'', transport)])) = Inr walletClient \<and>
      ext e (NewWalletClientSigner walletClient (JStr ''wallet'')) = Inr wallet_signer \<and>
      ext e (CreateModularAccountV2 (JObj
        [(''transport'', transport), (''chain'', gensynTestnet e),
         (''signer'', wallet_signer), (''deferredAction'', digest)])) = Inr smart_account \<and>
      ext e (CreateAlchemySmartAccountClient (JObj
        [(''account'', smart_account), (''chain'', gensynTestnet e),
         (''transport'', transport),
         (''policyId'', NEXT_PUBLIC_PAYMASTER_POLICY_ID e)])) = Inr client \<and>
      ext e (EncodeFunctionData (JObj
        [(''abi'', contract_abi e), (''functionName'', JStr ''registerPeer''),
         (''args'', JArr [peerId])])) = Inr data \<and>
      ext e (SendUserOperation client (JObj
        [(''uo'', JObj [(''target'', SMART_CONTRACT_ADDRESS e), (''data'', data)])]))
        = Inr result \<and>
      get_prop result ''hash'' = Inr hash \<and> serialisable hash"
  have "try_block e (Parsed b) =
     ([Call (GetUser orgId), Call (GetLatestApiKey orgId),
       Call (Alchemy (JObj [(''apiKey'', NEXT_PUBLIC_ALCHEMY_API_KEY e)])),
       Call (CreateWalletClient (JObj
         [(''account'', user_address), (''chain'', gensynTestnet e),
          (''transport'', transport)])),
       Call (NewWalletClientSigner walletClient (JStr ''wallet'')),
       Call (CreateModularAccountV2 (JObj
         [(''transport'', transport), (''chain'', gensynTestnet e),
          (''signer'', wallet_signer), (''deferredAction'', digest)])),
       Call (CreateAlchemySmartAccountClient (JObj
         [(''account'', smart_account), (''chain'', gensynTestnet e),
          (''transport'', transport),
          (''policyId'', NEXT_PUBLIC_PAYMASTER_POLICY_ID e)])),
       ConsoleLog (SMART_CONTRACT_ADDRESS e),
       Call (EncodeFunctionData (JObj
         [(''abi'', contract_abi e), (''functionName'', JStr ''registerPeer''),
          (''args'', JArr [peerId])])),
       Call (SendUserOperation client (JObj
         [(''uo'', JObj [(''target'', SMART_CONTRACT_ADDRESS e), (''data'', data)])]))],
      Inr \<lparr>json_body = JObj [(''hash'', hash)], status = 200\<rparr>)"
    by (rule try_block_success [OF assms(2,3)]) (use a in blast)+
  with a show "POST e request =
          ([ConsoleLog orgId, Call (GetUser orgId), Call (GetLatestApiKey orgId),
            Call (Alchemy (JObj [(''apiKey'', NEXT_PUBLIC_ALCHEMY_API_KEY e)])),
            Call (CreateWalletClient (JObj
              [(''account'', user_address), (''chain'', gensynTestnet e),
               (''transport'', transport)])),
            Call (NewWalletClientSigner walletClient (JStr ''wallet'')),
            Call (CreateModularAccountV2 (JObj
              [(''transport'', transport), (''chain'', gensynTestnet e),
               (''signer'', wallet_signer), (''deferredAction'', digest)])),
            Call (CreateAlchemySmartAccountClient (JObj
              [(''account'', smart_account), (''chain'', gensynTestnet e),
               (''transport'', transport),
               (''policyId'', NEXT_PUBLIC_PAYMASTER_POLICY_ID e)])),
            ConsoleLog (SMART_CONTRACT_ADDRESS e),
            Call (EncodeFunctionData (JObj
              [(''abi'', contract_abi e), (''functionName'', JStr ''registerPeer''),
               (''args'', JArr [peerId])])),
            Call (SendUserOperation client (JObj
              [(''uo'', JObj [(''target'', SMART_CONTRACT_ADDRESS e), (''data'', data)])]))],
           Inr \<lparr>json_body = JObj [(''hash'', hash)], status = 200\<rparr>)"
    by (simp add: POST_try [OF assms(1,2)] try_catch_def)
qed

text \<open>In the world \<open>ok_ext\<close> the store holds the address \<open>0xabc\<close> and the digest \<open>0xdd\<close>
  for the organisation \<open>org\<close>, and every call returns: the run of the handler on the
  request \<open>{orgId: "org", peerId: "peer"}\<close> is \<open>ok_trace\<close>, in which \<open>org\<close>, \<open>peer\<close>,
  \<open>0xabc\<close> and \<open>0xdd\<close> stand unchanged.\<close>

theorem POST_forwards_identifiers_witness:
  "POST (world ok_ext) good_request =
     (ok_trace, Inr \<lparr>json_body = JObj [(''hash'', JStr ''0x11'')], status = 200\<rparr>) \<and>
   Call (GetUser (JStr ''org'')) \<in> set ok_trace \<and>
   Call (GetLatestApiKey (JStr ''org'')) \<in> set ok_trace \<and>
   Call (EncodeFunctionData (JObj
     [(''abi'', JArr []), (''functionName'', JStr ''registerPeer''),
      (''args'', JArr [JStr ''peer''])])) \<in> set ok_trace \<and>
   Call (CreateWalletClient (JObj
     [(''account'', JStr ''0xabc''), (''chain'', JStr ''gensyn''),
      (''transport'', JStr ''transport'')])) \<in> set ok_trace \<and>
   Call (CreateModularAccountV2 (JObj
     [(''transport'', JStr ''transport''), (''chain'', JStr ''gensyn''),
      (''signer'', JStr ''signer''), (''deferredAction'', JStr ''0xdd'')])) \<in> set ok_trace \<and>
   ext (world ok_ext) (GetUser (JStr ''org'')) = Inr (JObj [(''address'', JStr ''0xabc'')]) \<and>
   ext (world ok_ext) (GetLatestApiKey (JStr ''org''))
     = Inr (JObj [(''deferredActionDigest'', JStr ''0xdd'')])"
proof -
  have run: "POST (world ok_ext) good_request =
     (ok_trace, Inr \<lparr>json_body = JObj [(''hash'', JStr ''0x11'')], status = 200\<rparr>)"
    using POST_forwards_identifiers [OF good_request_body(1,2,3),
        of _ "world ok_ext" _ _ _ _
        "JObj [(''address'', JStr ''0xabc'')]"
        "JObj [(''deferredActionDigest'', JStr ''0xdd'')]" "JStr ''0xdd''"
        "JStr ''transport''" "JStr ''0xabc''" "JStr ''walletClient''" "JStr ''signer''"
        "JStr ''account''" "JStr ''client''" "JStr ''0xda7a''"
        "JObj [(''hash'', JStr ''0x11'')]" "JStr ''0x11''",
        THEN conjunct2, THEN conjunct2, THEN conjunct2, THEN conjunct2, THEN conjunct2]
    by (simp add: world_def ok_trace_def)
  show ?thesis
    unfolding run by (simp add: ok_trace_def world_def)
qed

subsection \<open>C7: the order of the SDK calls\<close>

text \<open>
  Claim C7.  In every run of the handler the steps it performs are an initial part of the
  sequence create transport, create wallet client, create modular account, create
  smart-account client, send the user operation, followed by the error-decoding calls, if
  any; error decoding happens only when the \<open>try\<close> block has thrown; and a run that
  returns status 200 has performed exactly the five steps, in that order.
\<close>

theorem POST_step_order:
  "\<exists>n k. n \<le> length sdk_order \<and>
     steps (fst (POST e request)) = take n sdk_order @ replicate k DecodeErrors \<and>
     (0 < k \<longrightarrow> (\<exists>b err. json request = Inr b \<and> snd (try_block e (Parsed b)) = Inl err)) \<and>
     (\<forall>r. snd (POST e request) = Inr r \<and> status r = 200 \<longrightarrow>
        steps (fst (POST e request)) = sdk_order)"
proof -
  have trivial: ?thesis
    if "steps (fst (POST e request)) = []"
      and "\<forall>r. snd (POST e request) = Inr r \<longrightarrow> status r \<noteq> 200"
    apply (rule exI [of _ 0])
    apply (rule exI [of _ 0])
    using that apply auto
    done
  show ?thesis
  proof (cases "json request")
    case (Inl x)
    then show ?thesis
      by (intro trivial) (simp_all add: POST_invalid_json bad_request_def)
  next
    case (Inr b)
    show ?thesis
    proof (cases "get_prop b ''orgId''")
      case (Inl x)
      have "POST e request = ([], Inl x)"
        unfolding POST_parsed [OF Inr] Inl by simp
      then show ?thesis
        by (intro trivial) simp_all
    next
      case orgId: (Inr v)
      show ?thesis
      proof (cases "truthy v")
        case False
        with Inr orgId have "POST e request = ([], Inr bad_request)"
          by (simp add: POST_parsed)
        then show ?thesis
          by (intro trivial) (simp_all add: bad_request_def)
      next
        case True
        obtain n where n: "n \<le> length sdk_order"
          "steps (fst (try_block e (Parsed b))) = take n sdk_order"
          using steps_try_block by blast
        show ?thesis
        proof (cases "snd (try_block e (Parsed b))")
          case (Inl err)
          obtain k where k: "steps (fst (catch_block e err)) = replicate k DecodeErrors"
            using steps_catch_block by blast
          have tr: "steps (fst (POST e request)) = take n sdk_order @ replicate k DecodeErrors"
            using Inr orgId True Inl n k by (simp add: POST_try try_catch_def)
          have no200: "\<forall>r. snd (POST e request) = Inr r \<longrightarrow> status r \<noteq> 200"
            using Inr orgId True Inl by (simp add: POST_try try_catch_def catch_block_not_200)
          from n(1) tr no200 Inr Inl show ?thesis by blast
        next
          case ok: (Inr r)
          have tr: "steps (fst (POST e request)) = take n sdk_order @ replicate 0 DecodeErrors"
            using Inr orgId True ok n by (simp add: POST_try try_catch_def)
          have ok200: "\<forall>r. snd (POST e request) = Inr r \<and> status r = 200 \<longrightarrow>
              steps (fst (POST e request)) = sdk_order"
            using Inr orgId True ok steps_try_block_success [of e "Parsed b"]
            by (simp add: POST_try try_catch_def)
          have "\<not> 0 < (0::nat)" by simp
          with n(1) tr ok200 show ?thesis by blast
        qed
      qed
    qed
  qed
qed

text \<open>The successful run performs the five steps in order.\<close>

theorem POST_step_order_witness:
  "snd (POST (world ok_ext) good_request) =
     Inr \<lparr>json_body = JObj [(''hash'', JStr ''0x11'')], status = 200\<rparr> \<and>
   steps (fst (POST (world ok_ext) good_request)) =
     [CreateTransport, CreateWalletClientStep, CreateModularAccount,
      CreateSmartAccountClient, SendUserOperationStep]"
proof -
  have ok: "snd (POST (world ok_ext) good_request) =
     Inr \<lparr>json_body = JObj [(''hash'', JStr ''0x11'')], status = 200\<rparr>"
    by (simp add: run_ok)
  moreover have "status \<lparr>json_body = JObj [(''hash'', JStr ''0x11'')], status = 200\<rparr> = 200"
    by simp
  ultimately have "steps (fst (POST (world ok_ext) good_request)) = sdk_order"
    using POST_step_order [of "world ok_ext" good_request] by blast
  with ok show ?thesis
    by (simp add: sdk_order_def)
qed

subsection \<open>C9: a body that is not valid JSON\<close>

text \<open>
  Claim C9.  When \<open>request.json()\<close> rejects, the response built in the \<open>.catch\<close> callback
  becomes the value of \<open>body\<close> (it is not returned); reading \<open>orgId\<close> of that response
  object gives \<open>undefined\<close>, which is falsy, so the check that follows returns status 400
  with body \<open>{error: "bad request"}\<close>, after logging the error and nothing else.
\<close>

theorem POST_invalid_json_body:
  "json request = Inl err \<Longrightarrow>
   parse_body request =
     ([ConsoleError err],
      Inr (Caught \<lparr>json_body = JObj [(''error'', JStr ''bad request'')], status = 400\<rparr>)) \<and>
   body_prop (Caught \<lparr>json_body = JObj [(''error'', JStr ''bad request'')], status = 400\<rparr>)
     ''orgId'' = Inr JUndefined \<and>
   \<not> truthy JUndefined \<and>
   POST e request =
     ([ConsoleError err],
      Inr \<lparr>json_body = JObj [(''error'', JStr ''bad request'')], status = 400\<rparr>)"
  by (simp add: POST_def parse_body_def comp_simps)

theorem POST_invalid_json_body_witness:
  "parse_body \<lparr>json = Inl (new_Error ''Unexpected token'')\<rparr> =
     ([ConsoleError (new_Error ''Unexpected token'')],
      Inr (Caught \<lparr>json_body = JObj [(''error'', JStr ''bad request'')], status = 400\<rparr>)) \<and>
   POST (world ok_ext) \<lparr>json = Inl (new_Error ''Unexpected token'')\<rparr> =
     ([ConsoleError (new_Error ''Unexpected token'')],
      Inr \<lparr>json_body = JObj [(''error'', JStr ''bad request'')], status = 400\<rparr>)"
  using POST_invalid_json_body [of "\<lparr>json = Inl (new_Error ''Unexpected token'')\<rparr>"
      "new_Error ''Unexpected token''" "world ok_ext"]
  by simp

subsection \<open>C10: the signer of \<open>createSignerForUser\<close>\<close>

text \<open>
  Claim C10.  \<open>createSignerForUser\<close> returns a signer exactly for a user whose \<open>address\<close>
  is an address string (\<open>0x\<close> and forty hexadecimal digits); for any other user
  \<open>toAccount\<close> throws and no signer is returned.  Every signer it returns is a \<open>custom\<close>
  signer around a wallet client on \<open>gensynTestnet\<close> and the given transport, whose account
  is a local account with the user's address, unchanged, and whose \<open>signMessage\<close>,
  \<open>signTransaction\<close> and \<open>signTypedData\<close> reject with \<open>Error("Not implemented")\<close> for every
  input; none of them ever resolves.
\<close>

theorem createSignerForUser_signer:
  "((\<exists>s. createSignerForUser e user transport = Inr s) \<longleftrightarrow>
      (\<exists>a. get_prop user ''address'' = Inr a \<and> isAddress a)) \<and>
   (createSignerForUser e user transport = Inr s \<longrightarrow>
      get_prop user ''address'' = Inr (account_address (signer_account s)) \<and>
      signerType s = ''custom'' \<and>
      cfg_chain (config (inner s)) = gensynTestnet e \<and>
      cfg_transport (config (inner s)) = transport \<and>
      account_type (signer_account s) = ''local'' \<and>
      (\<forall>x. account_signMessage (signer_account s) x = Inl (new_Error ''Not implemented'')) \<and>
      (\<forall>x. account_signTransaction (signer_account s) x
         = Inl (new_Error ''Not implemented'')) \<and>
      (\<forall>x. account_signTypedData (signer_account s) x
         = Inl (new_Error ''Not implemented'')) \<and>
      (\<forall>x y. account_signMessage (signer_account s) x \<noteq> Inr y \<and>
         account_signTransaction (signer_account s) x \<noteq> Inr y \<and>
         account_signTypedData (signer_account s) x \<noteq> Inr y))"
  by (auto simp add: createSignerForUser_def toAccount_def signer_account_def Let_def
      split: sum.splits if_splits)

text \<open>For the user with the address \<open>valid_address\<close> a signer is returned; it carries that
  address and refuses to sign the message \<open>hello\<close>.  For a user with the address \<open>0xabc\<close>
  none is returned.\<close>

theorem createSignerForUser_signer_witness:
  "isAddress (JStr valid_address) \<and>
   (\<exists>s. createSignerForUser (world ok_ext) (JObj [(''address'', JStr valid_address)])
          (JStr ''transport'') = Inr s \<and>
     account_address (signer_account s) = JStr valid_address \<and>
     account_signMessage (signer_account s) (JStr ''hello'')
       = Inl (new_Error ''Not implemented'')) \<and>
   \<not> isAddress (JStr ''0xabc'') \<and>
   \<not> (\<exists>s. createSignerForUser (world ok_ext) (JObj [(''address'', JStr ''0xabc'')])
          (JStr ''transport'') = Inr s)"
proof -
  let ?user = "JObj [(''address'', JStr valid_address)]"
  have valid: "isAddress (JStr valid_address)"
    by (simp add: valid_address_def is_hex_digit_def)
  then have "\<exists>a. get_prop ?user ''address'' = Inr a \<and> isAddress a"
    by simp
  then obtain s where s: "createSignerForUser (world ok_ext) ?user (JStr ''transport'') = Inr s"
    using createSignerForUser_signer [of "world ok_ext" ?user "JStr ''transport''"] by blast
  have 1: "account_address (signer_account s) = JStr valid_address \<and>
     account_signMessage (signer_account s) (JStr ''hello'')
       = Inl (new_Error ''Not implemented'')"
    using createSignerForUser_signer [of "world ok_ext" ?user "JStr ''transport''" s] s
    by simp
  have invalid: "\<not> isAddress (JStr ''0xabc'')"
    by simp
  then have "\<not> (\<exists>a. get_prop (JObj [(''address'', JStr ''0xabc'')]) ''address'' = Inr a \<and>
      isAddress a)"
    by simp
  then have 2: "\<not> (\<exists>s. createSignerForUser (world ok_ext)
      (JObj [(''address'', JStr ''0xabc'')]) (JStr ''transport'') = Inr s)"
    using createSignerForUser_signer [of "world ok_ext"
        "JObj [(''address'', JStr ''0xabc'')]" "JStr ''transport''"] by blast
  from valid s 1 invalid 2 show ?thesis by blast
qed

end
